theory Spec2Isabelle
  imports Complex_Main "HOL-Library.Stream" "HOL-Library.Word"
begin

section \<open>JavaScript values seen by src/service/util.js\<close>

text \<open>
  The helpers of util.js take untyped arguments, so the model starts with the values
  they can be handed. A number is one of the special doubles or a finite value
  (\<open>Finite 0\<close> is \<open>+0\<close>, \<open>NegZero\<close> is \<open>-0\<close>). A string is a list of
  code units, here restricted to the code units 0 to 255.

  An object is given by the three observations util.js can make of it:
  \<^item> whether it is callable, which decides between \<open>typeof\<close> \<open>'object'\<close> and
    \<open>'function'\<close>;
  \<^item> the outcome of looking for \<open>String.prototype\<close> in its prototype chain: found,
    not found, or an exception (a Proxy whose \<open>getPrototypeOf\<close> trap throws, a
    revoked Proxy);
  \<^item> the outcome of converting it to a string, through its own \<open>Symbol.toPrimitive\<close>,
    \<open>toString\<close> and \<open>valueOf\<close> where it has them: a string or an exception.

  So \<open>new String(s)\<close> is \<open>JObject False (Inr True) (Inr s)\<close>, and a String wrapper
  with a \<open>toString\<close> of its own has the result of that method in the third place;
  \<open>Object.create(String.prototype)\<close> is \<open>JObject False (Inr True) (Inl
  Thrown_TypeError)\<close>, since \<open>String.prototype.toString\<close> rejects a receiver that is
  not a String; \<open>{}\<close> is \<open>JObject False (Inr False) (Inr ''[object Object]'')\<close>.
  What an inspection throws is a \<open>TypeError\<close> of the runtime or any other value,
  identified by a number.
\<close>

datatype jsnum = NaN | PosInfinity | NegInfinity | NegZero | Finite rat

datatype thrown = Thrown_TypeError | Thrown_value nat

datatype jsval =
    JUndefined
  | JNull
  | JBool bool
  | JNum jsnum
  | JBigInt int
  | JStr string
  | JSymbol
  | JObject bool "thrown + bool" "thrown + string"

definition String_object :: "string \<Rightarrow> jsval" where
  "String_object s = JObject False (Inr True) (Inr s)"

fun is_object :: "jsval \<Rightarrow> bool" where
  "is_object (JObject callable proto conv) = True"
| "is_object v = False"

text \<open>What a call can throw.\<close>

record error_obj =
  message :: string
  status :: jsval
  expose :: bool

datatype js_exn =
    TypeError
  | RangeError
  | StringTooLong
  | Thrown nat
  | Error error_obj

fun raise_of :: "thrown \<Rightarrow> js_exn" where
  "raise_of Thrown_TypeError = TypeError"
| "raise_of (Thrown_value n) = Thrown n"

text \<open>The \<open>typeof\<close> operator.\<close>

fun typeof :: "jsval \<Rightarrow> string" where
  "typeof JUndefined = ''undefined''"
| "typeof JNull = ''object''"
| "typeof (JBool b) = ''boolean''"
| "typeof (JNum n) = ''number''"
| "typeof (JBigInt i) = ''bigint''"
| "typeof (JStr s) = ''string''"
| "typeof JSymbol = ''symbol''"
| "typeof (JObject callable proto conv) = (if callable then ''function'' else ''object'')"

text \<open>
  \<open>String.prototype.isPrototypeOf(data)\<close>: false for every primitive, without looking
  any further; for an object, the outcome of walking its prototype chain.
\<close>

fun String_prototype_isPrototypeOf :: "jsval \<Rightarrow> js_exn + bool" where
  "String_prototype_isPrototypeOf (JObject callable proto conv) =
     (case proto of Inl t \<Rightarrow> Inl (raise_of t) | Inr b \<Rightarrow> Inr b)"
| "String_prototype_isPrototypeOf v = Inr False"

text \<open>\<open>Boolean(data)\<close>.\<close>

fun Boolean :: "jsval \<Rightarrow> bool" where
  "Boolean JUndefined = False"
| "Boolean JNull = False"
| "Boolean (JBool b) = b"
| "Boolean (JNum NaN) = False"
| "Boolean (JNum NegZero) = False"
| "Boolean (JNum (Finite q)) = (q \<noteq> 0)"
| "Boolean (JNum n) = True"
| "Boolean (JBigInt i) = (i \<noteq> 0)"
| "Boolean (JStr s) = (s \<noteq> [])"
| "Boolean JSymbol = True"
| "Boolean (JObject callable proto conv) = True"

text \<open>\<open>data === t\<close> for a string literal \<open>t\<close>: only a primitive string can be
  strictly equal to it.\<close>

fun strict_equals_str :: "jsval \<Rightarrow> string \<Rightarrow> bool" where
  "strict_equals_str (JStr s) t = (s = t)"
| "strict_equals_str v t = False"

text \<open>
  String conversion, as \<open>RegExp.prototype.test\<close> applies it to its argument. The
  rendering of numbers and big integers belongs to the language runtime and is taken
  as the parameter \<open>render\<close>; a symbol cannot be converted; an object answers with
  the outcome of its own conversion.
\<close>

fun ToString :: "(jsval \<Rightarrow> string) \<Rightarrow> jsval \<Rightarrow> js_exn + string" where
  "ToString render JUndefined = Inr ''undefined''"
| "ToString render JNull = Inr ''null''"
| "ToString render (JBool b) = Inr (if b then ''true'' else ''false'')"
| "ToString render (JNum n) = Inr (render (JNum n))"
| "ToString render (JBigInt i) = Inr (render (JBigInt i))"
| "ToString render (JStr s) = Inr s"
| "ToString render JSymbol = Inl TypeError"
| "ToString render (JObject callable proto conv) =
     (case conv of Inl t \<Rightarrow> Inl (raise_of t) | Inr s \<Rightarrow> Inr s)"

section \<open>Regular expressions\<close>

text \<open>
  The patterns of util.js are anchored at both ends and use character classes,
  concatenation, alternation and counted or unbounded repetition only, so
  \<open>test\<close> decides whether the whole string belongs to a regular language. The
  matcher below takes the derivative of the pattern by each character in turn.
\<close>

datatype regex =
    Never
  | Empty
  | Class "char \<Rightarrow> bool"
  | Or regex regex
  | Then regex regex
  | Many regex

fun nullable :: "regex \<Rightarrow> bool" where
  "nullable Never = False"
| "nullable Empty = True"
| "nullable (Class P) = False"
| "nullable (Or r s) = (nullable r \<or> nullable s)"
| "nullable (Then r s) = (nullable r \<and> nullable s)"
| "nullable (Many r) = True"

fun deriv :: "char \<Rightarrow> regex \<Rightarrow> regex" where
  "deriv c Never = Never"
| "deriv c Empty = Never"
| "deriv c (Class P) = (if P c then Empty else Never)"
| "deriv c (Or r s) = Or (deriv c r) (deriv c s)"
| "deriv c (Then r s) =
     (if nullable r then Or (Then (deriv c r) s) (deriv c s) else Then (deriv c r) s)"
| "deriv c (Many r) = Then (deriv c r) (Many r)"

fun matches :: "regex \<Rightarrow> string \<Rightarrow> bool" where
  "matches r [] = nullable r"
| "matches r (c # cs) = matches (deriv c r) cs"

text \<open>
  The language of a pattern, for stating what the matcher accepts: the strings built
  from the pattern's pieces.
\<close>

inductive_set star :: "string set \<Rightarrow> string set" for A :: "string set" where
  star_empty: "[] \<in> star A"
| star_step: "u \<in> A \<Longrightarrow> v \<in> star A \<Longrightarrow> u @ v \<in> star A"

fun lang :: "regex \<Rightarrow> string set" where
  "lang Never = {}"
| "lang Empty = {[]}"
| "lang (Class P) = {[c] | c. P c}"
| "lang (Or r s) = lang r \<union> lang s"
| "lang (Then r s) = {u @ v | u v. u \<in> lang r \<and> v \<in> lang s}"
| "lang (Many r) = star (lang r)"

text \<open>The quantifiers \<open>+\<close>, \<open>{n}\<close>, \<open>{1,3}\<close> and \<open>{2,}\<close>, and character ranges.\<close>

definition plus_re :: "regex \<Rightarrow> regex" where
  "plus_re r = Then r (Many r)"

fun times :: "nat \<Rightarrow> regex \<Rightarrow> regex" where
  "times 0 r = Empty"
| "times (Suc n) r = Then r (times n r)"

definition one_to_three :: "regex \<Rightarrow> regex" where
  "one_to_three r = Then r (Then (Or Empty r) (Or Empty r))"

definition two_or_more :: "regex \<Rightarrow> regex" where
  "two_or_more r = Then r (Then r (Many r))"

definition lit :: "char \<Rightarrow> regex" where
  "lit x = Class (\<lambda>c. c = x)"

definition in_range :: "char \<Rightarrow> char \<Rightarrow> char \<Rightarrow> bool" where
  "in_range lo hi c = ((of_char lo :: nat) \<le> of_char c \<and> (of_char c :: nat) \<le> of_char hi)"

text \<open>\<open>regex.test(data)\<close>: the argument is converted to a string first.\<close>

definition RegExp_test :: "(jsval \<Rightarrow> string) \<Rightarrow> regex \<Rightarrow> jsval \<Rightarrow> js_exn + bool" where
  "RegExp_test render re data =
     (case ToString render data of Inl e \<Rightarrow> Inl e | Inr s \<Rightarrow> Inr (matches re s))"

section \<open>Type and format predicates\<close>

text \<open>
  The functions call each other through \<open>this\<close>; they are modelled as called on the
  module object (\<open>util.isKeyId(x)\<close>), where \<open>this.isString\<close> is \<open>isString\<close>. In
  \<open>isString\<close> the right operand of \<open>||\<close> is evaluated only when the left one is
  false. An exception of a callee ends the caller with the same exception.
\<close>

definition isString :: "jsval \<Rightarrow> js_exn + bool" where
  "isString data =
     (if typeof data = ''string'' then Inr True else String_prototype_isPrototypeOf data)"

definition isTrue :: "jsval \<Rightarrow> js_exn + bool" where
  "isTrue data =
     (case isString data of
        Inl e \<Rightarrow> Inl e
      | Inr textual \<Rightarrow>
          if textual then Inr (strict_equals_str data ''true'') else Inr (Boolean data))"

text \<open>\<open>[a-fA-F0-9]\<close>\<close>

definition hex_class :: "char \<Rightarrow> bool" where
  "hex_class c = (in_range CHR ''a'' CHR ''f'' c \<or> in_range CHR ''A'' CHR ''F'' c
                  \<or> in_range CHR ''0'' CHR ''9'' c)"

text \<open>\<open>/^[a-fA-F0-9]{16}$/\<close>\<close>

definition keyid_re :: regex where
  "keyid_re = times 16 (Class hex_class)"

definition isKeyId :: "(jsval \<Rightarrow> string) \<Rightarrow> jsval \<Rightarrow> js_exn + bool" where
  "isKeyId render data =
     (case isString data of
        Inl e \<Rightarrow> Inl e
      | Inr textual \<Rightarrow>
          if \<not> textual then Inr False else RegExp_test render keyid_re data)"

text \<open>\<open>/^[a-fA-F0-9]{40}$/\<close>\<close>

definition fingerprint_re :: regex where
  "fingerprint_re = times 40 (Class hex_class)"

definition isFingerPrint :: "(jsval \<Rightarrow> string) \<Rightarrow> jsval \<Rightarrow> js_exn + bool" where
  "isFingerPrint render data =
     (case isString data of
        Inl e \<Rightarrow> Inl e
      | Inr textual \<Rightarrow>
          if \<not> textual then Inr False else RegExp_test render fingerprint_re data)"

text \<open>
  The e-mail pattern, piece by piece. \<open>\s\<close> is the white space among the code units
  0 to 255; \<open>.\<close> is anything but a line terminator; the excluded characters of the
  local part are \<open><>()[]\.,;:\<close>, white space, \<open>@\<close> and the double quote.
\<close>

definition white_space :: "char \<Rightarrow> bool" where
  "white_space c = (in_range (CHR 0x09) (CHR 0x0D) c \<or> c = CHR 0x20 \<or> c = CHR 0xA0)"

definition any_char :: "char \<Rightarrow> bool" where
  "any_char c = (c \<noteq> CHR 0x0A \<and> c \<noteq> CHR 0x0D)"

definition atom_class :: "char \<Rightarrow> bool" where
  "atom_class c =
     (\<not> (c \<in> set [CHR ''<'', CHR ''>'', CHR ''('', CHR '')'', CHR ''['', CHR '']'', CHR 0x5C,
                   CHR ''.'', CHR '','', CHR '';'', CHR '':'', CHR ''@'', CHR 0x22]
         \<or> white_space c))"

definition digit_class :: "char \<Rightarrow> bool" where
  "digit_class c = in_range CHR ''0'' CHR ''9'' c"

definition label_class :: "char \<Rightarrow> bool" where
  "label_class c = (in_range CHR ''a'' CHR ''z'' c \<or> in_range CHR ''A'' CHR ''Z'' c
                    \<or> c = CHR ''-'' \<or> in_range CHR ''0'' CHR ''9'' c)"

definition alpha_class :: "char \<Rightarrow> bool" where
  "alpha_class c = (in_range CHR ''a'' CHR ''z'' c \<or> in_range CHR ''A'' CHR ''Z'' c)"

definition local_part_re :: regex where
  "local_part_re =
     Or (Then (plus_re (Class atom_class))
              (Many (Then (lit CHR ''.'') (plus_re (Class atom_class)))))
        (Then (lit (CHR 0x22)) (Then (plus_re (Class any_char)) (lit (CHR 0x22))))"

definition octet_re :: regex where
  "octet_re = one_to_three (Class digit_class)"

definition domain_re :: regex where
  "domain_re =
     Or (Then (lit CHR ''['')
          (Then octet_re (Then (lit CHR ''.'')
          (Then octet_re (Then (lit CHR ''.'')
          (Then octet_re (Then (lit CHR ''.'')
          (Then octet_re (lit CHR '']'')))))))))
        (Then (plus_re (Then (plus_re (Class label_class)) (lit CHR ''.'')))
              (two_or_more (Class alpha_class)))"

definition email_re :: regex where
  "email_re = Then local_part_re (Then (lit CHR ''@'') domain_re)"

definition isEmail :: "(jsval \<Rightarrow> string) \<Rightarrow> jsval \<Rightarrow> js_exn + bool" where
  "isEmail render data =
     (case isString data of
        Inl e \<Rightarrow> Inl e
      | Inr textual \<Rightarrow>
          if \<not> textual then Inr False else RegExp_test render email_re data)"

section \<open>Error helper\<close>

text \<open>\<open>exports.throw\<close>: builds the error, tags it, and throws it.\<close>

definition throw :: "jsval \<Rightarrow> string \<Rightarrow> js_exn + 'a" where
  "throw st msg =
     (let err = \<lparr>message = msg, status = JUndefined, expose = False\<rparr>;
          err = err\<lparr>status := st\<rparr>;
          err = err\<lparr>expose := True\<rparr>
      in Inl (Error err))"

section \<open>Random hex strings\<close>

text \<open>
  The operating system's entropy is a stream of bytes; drawing bytes returns them
  together with the rest of the stream. \<open>crypto.randomBytes(size)\<close> belongs to the
  runtime library. It throws a \<open>TypeError\<close> for a size that is not a number and a
  \<open>RangeError\<close> for \<open>NaN\<close>, a negative size or a size above \<open>2^31 - 1\<close>; any
  other size is cut to its integer part, and that many bytes are drawn.
\<close>

type_synonym byte = "8 word"

definition kMaxLength :: nat where
  "kMaxLength = 2 ^ 31 - 1"

fun randomBytes :: "byte stream \<Rightarrow> jsval \<Rightarrow> js_exn + (byte list \<times> byte stream)" where
  "randomBytes src (JNum (Finite q)) =
     (if q < 0 \<or> of_nat kMaxLength < q then Inl RangeError
      else Inr (stake (nat \<lfloor>q\<rfloor>) src, sdrop (nat \<lfloor>q\<rfloor>) src))"
| "randomBytes src (JNum NegZero) = Inr ([], src)"
| "randomBytes src (JNum n) = Inl RangeError"
| "randomBytes src v = Inl TypeError"

text \<open>
  \<open>buffer.toString('hex')\<close>: two lowercase digits for each byte, high nibble first.
  The runtime has a longest string, of \<open>2^29 - 24\<close> characters, and throws when the
  encoding would be longer.
\<close>

definition hex_digit :: "nat \<Rightarrow> char" where
  "hex_digit d = ''0123456789abcdef'' ! d"

definition hex_byte :: "byte \<Rightarrow> string" where
  "hex_byte b = [hex_digit (unat b div 16), hex_digit (unat b mod 16)]"

definition hex_encode :: "byte list \<Rightarrow> string" where
  "hex_encode buf = concat (map hex_byte buf)"

definition kStringMaxLength :: nat where
  "kStringMaxLength = 2 ^ 29 - 24"

definition Buffer_toString_hex :: "byte list \<Rightarrow> js_exn + string" where
  "Buffer_toString_hex buf =
     (if kStringMaxLength < 2 * length buf then Inl StringTooLong else Inr (hex_encode buf))"

text \<open>\<open>a || b\<close>\<close>

definition logical_or :: "jsval \<Rightarrow> jsval \<Rightarrow> jsval" where
  "logical_or a b = (if Boolean a then a else b)"

definition random :: "byte stream \<Rightarrow> jsval \<Rightarrow> js_exn + (string \<times> byte stream)" where
  "random src bytes =
     (let bytes = logical_or bytes (JNum (Finite 16))
      in case randomBytes src bytes of
           Inl e \<Rightarrow> Inl e
         | Inr (buf, src') \<Rightarrow>
             (case Buffer_toString_hex buf of
                Inl e \<Rightarrow> Inl e
              | Inr s \<Rightarrow> Inr (s, src')))"

section \<open>Request context helpers\<close>

text \<open>
  The request context of the web framework, reduced to what util.js reads: the
  \<open>secure\<close> flag, the header lookup \<open>get\<close>, and the \<open>protocol\<close> and \<open>host\<close> strings.
\<close>

record koa_ctx =
  secure :: bool
  get :: "string \<Rightarrow> jsval"
  protocol :: string
  host :: string

record server_origin =
  origin_protocol :: "string"
  origin_host :: "string"

definition checkHTTP :: "koa_ctx \<Rightarrow> bool" where
  "checkHTTP ctx = (\<not> secure ctx \<and> strict_equals_str (get ctx ''X-Forwarded-Proto'') ''http'')"

definition checkHTTPS :: "koa_ctx \<Rightarrow> bool" where
  "checkHTTPS ctx = (secure ctx \<or> strict_equals_str (get ctx ''X-Forwarded-Proto'') ''https'')"

definition origin :: "koa_ctx \<Rightarrow> server_origin" where
  "origin ctx =
     \<lparr>origin_protocol = (if checkHTTPS ctx then ''https'' else protocol ctx),
      origin_host = host ctx\<rparr>"

definition hkpUrl :: "koa_ctx \<Rightarrow> string" where
  "hkpUrl ctx = (if checkHTTPS ctx then ''hkps://'' else ''hkp://'') @ host ctx"

section \<open>Auxiliary facts\<close>

lemma strict_equals_str_iff: "strict_equals_str v t = (v = JStr t)"
  by (cases v) auto

subsection \<open>When \<open>isString\<close> answers and when it raises\<close>

lemma isString_JStr: "isString (JStr s) = Inr True"
  by (simp add: isString_def)

lemma isString_object:
  "isString (JObject callable proto conv) =
     (case proto of Inl t \<Rightarrow> Inl (raise_of t) | Inr b \<Rightarrow> Inr b)"
  by (simp add: isString_def)

lemma isString_primitive: "\<not> is_object data \<Longrightarrow> isString data = Inr (\<exists>s. data = JStr s)"
  by (cases data) (simp_all add: isString_def)

lemma ToString_primitive_textual:
  "\<not> is_object data \<Longrightarrow> isString data = Inr True \<Longrightarrow> \<exists>s. ToString render data = Inr s"
  by (cases data) (simp_all add: isString_def)

lemma isString_True_iff:
  "(isString data = Inr True) =
     ((\<exists>s. data = JStr s) \<or> (\<exists>callable conv. data = JObject callable (Inr True) conv))"
  by (cases data) (auto simp: isString_def split: sum.splits)

lemma isString_raises_iff:
  "(isString data = Inl e) =
     (\<exists>callable t conv. data = JObject callable (Inl t) conv \<and> e = raise_of t)"
  by (cases data) (auto simp: isString_def split: sum.splits)

lemma ToString_textual_raises_iff:
  "isString data = Inr True \<Longrightarrow>
     (ToString render data = Inl e) =
       (\<exists>callable t. data = JObject callable (Inr True) (Inl t) \<and> e = raise_of t)"
  by (cases data) (auto simp: isString_def split: sum.splits if_splits)

subsection \<open>The matcher on counted character classes\<close>

lemma matches_Never: "matches Never s = False"
  by (induction s) auto

lemma matches_Empty: "matches Empty s = (s = [])"
  by (cases s) (auto simp: matches_Never)

lemma matches_Then_Never: "matches (Then Never r) s = False"
  by (induction s) auto

lemma matches_Or: "matches (Or r1 r2) s = (matches r1 s \<or> matches r2 s)"
  by (induction s arbitrary: r1 r2) auto

lemma matches_Then_Empty: "matches (Then Empty r) s = matches r s"
  by (cases s) (auto simp: matches_Or matches_Then_Never)

lemma matches_times_Class: "matches (times n (Class P)) s = (length s = n \<and> list_all P s)"
proof (induction n arbitrary: s)
  case 0
  show ?case by (auto simp: matches_Empty)
next
  case (Suc n)
  show ?case by (cases s) (auto simp: matches_Then_Empty matches_Then_Never Suc)
qed

lemma char_eq_code: "(c = d) = ((of_char c :: nat) = of_char d)"
  by simp

lemma in_range_upt:
  "in_range lo hi c = ((of_char c :: nat) \<in> set [of_char lo ..< Suc (of_char hi)])"
  by (simp only: in_range_def set_upt atLeastLessThan_iff less_Suc_eq_le)

lemma hex_class_iff: "hex_class c = (c \<in> set ''0123456789abcdefABCDEF'')"
  unfolding hex_class_def in_range_upt
  by (simp add: char_eq_code [of c]) blast

lemma list_all_hex_class:
  "list_all hex_class s = (set s \<subseteq> set ''0123456789abcdefABCDEF'')"
  by (simp only: list_all_iff subset_iff hex_class_iff Ball_def)

lemma matches_keyid_re:
  "matches keyid_re s = (length s = 16 \<and> set s \<subseteq> set ''0123456789abcdefABCDEF'')"
  by (simp only: keyid_re_def matches_times_Class list_all_hex_class)

lemma matches_fingerprint_re:
  "matches fingerprint_re s = (length s = 40 \<and> set s \<subseteq> set ''0123456789abcdefABCDEF'')"
  by (simp only: fingerprint_re_def matches_times_Class list_all_hex_class)

subsection \<open>Every string the matcher accepts belongs to the language of the pattern\<close>

lemma nullable_lang: "nullable r \<Longrightarrow> [] \<in> lang r"
  by (induction r) (auto intro: star_empty)

lemma deriv_lang: "v \<in> lang (deriv c r) \<Longrightarrow> c # v \<in> lang r"
proof (induction r arbitrary: v)
  case (Then r1 r2)
  show ?case
  proof (cases "nullable r1")
    case False
    with Then.prems obtain u w where "v = u @ w" "u \<in> lang (deriv c r1)" "w \<in> lang r2"
      by auto
    with Then.IH(1) [of u] have "(c # u) @ w \<in> lang (Then r1 r2)"
      by (simp only: lang.simps) blast
    with \<open>v = u @ w\<close> show ?thesis by simp
  next
    case True
    with Then.prems consider
        (left) u w where "v = u @ w" "u \<in> lang (deriv c r1)" "w \<in> lang r2"
      | (right) "v \<in> lang (deriv c r2)"
      by auto
    then show ?thesis
    proof cases
      case left
      with Then.IH(1) [of u] have "(c # u) @ w \<in> lang (Then r1 r2)"
        by (simp only: lang.simps) blast
      with left(1) show ?thesis by simp
    next
      case right
      from nullable_lang [OF True] Then.IH(2) [OF right]
      have "[] @ (c # v) \<in> lang (Then r1 r2)"
        by (simp only: lang.simps) blast
      then show ?thesis by simp
    qed
  qed
next
  case (Many r)
  from Many.prems obtain u w where "v = u @ w" "u \<in> lang (deriv c r)" "w \<in> star (lang r)"
    by auto
  with Many.IH [of u] have "(c # u) @ w \<in> star (lang r)"
    by (intro star_step) auto
  with \<open>v = u @ w\<close> show ?case by simp
qed (auto split: if_splits)

lemma matches_lang: "matches r s \<Longrightarrow> s \<in> lang r"
  by (induction s arbitrary: r) (auto intro: nullable_lang deriv_lang)

lemma lang_email_re_at: "s \<in> lang email_re \<Longrightarrow> CHR ''@'' \<in> set s"
  by (auto simp: email_re_def lit_def)

lemma matches_email_re_at: "CHR ''@'' \<notin> set s \<Longrightarrow> \<not> matches email_re s"
  using matches_lang [of email_re s] lang_email_re_at [of s] by blast

lemma isFingerPrint_textual:
  "isString data = Inr True \<Longrightarrow> ToString render data = Inr s \<Longrightarrow>
     isFingerPrint render data =
       Inr (length s = 40 \<and> set s \<subseteq> set ''0123456789abcdefABCDEF'')"
  by (simp add: isFingerPrint_def RegExp_test_def matches_fingerprint_re)

lemma isKeyId_textual:
  "isString data = Inr True \<Longrightarrow> ToString render data = Inr s \<Longrightarrow>
     isKeyId render data = Inr (length s = 16 \<and> set s \<subseteq> set ''0123456789abcdefABCDEF'')"
  by (simp add: isKeyId_def RegExp_test_def matches_keyid_re)

lemma isEmail_textual:
  "isString data = Inr True \<Longrightarrow> ToString render data = Inr s \<Longrightarrow>
     isEmail render data = Inr (matches email_re s)"
  by (simp add: isEmail_def RegExp_test_def)

lemma pattern_predicates_raise:
  "isString data = Inr True \<Longrightarrow> ToString render data = Inl e \<Longrightarrow>
     isKeyId render data = Inl e \<and> isFingerPrint render data = Inl e
     \<and> isEmail render data = Inl e"
  by (simp add: isKeyId_def isFingerPrint_def isEmail_def RegExp_test_def)

lemma isEmail_JStr: "isEmail render (JStr s) = Inr (matches email_re s)"
  by (rule isEmail_textual) (simp_all add: isString_JStr)

text \<open>The e-mail pattern on the two addresses of the specification.\<close>

lemma matches_email_re_examples:
  "matches email_re ''user@example.com'' = True"
  "matches email_re ''not-an-email'' = False"
  by code_simp+

subsection \<open>Hexadecimal encoding and the byte source\<close>

lemma hex_digit_in: "d < 16 \<Longrightarrow> hex_digit d \<in> set ''0123456789abcdef''"
  unfolding hex_digit_def by (rule nth_mem) simp

lemma unat_byte_div: "unat (b :: byte) div 16 < 16"
proof -
  have "unat b < 2 ^ 8" using unsigned_less [of b] by simp
  then show ?thesis by simp
qed

lemma set_hex_byte: "set (hex_byte b) \<subseteq> set ''0123456789abcdef''"
  using hex_digit_in [OF unat_byte_div [of b]] hex_digit_in [of "unat b mod 16"]
  by (simp only: hex_byte_def list.set insert_subset empty_subsetI simp_thms
        mod_less_divisor zero_less_numeral)

lemma length_hex_encode: "length (hex_encode buf) = 2 * length buf"
  by (induction buf) (simp_all add: hex_encode_def hex_byte_def)

lemma set_hex_encode: "set (hex_encode buf) \<subseteq> set ''0123456789abcdef''"
  using set_hex_byte
  by (induction buf)
    (simp_all only: hex_encode_def list.map concat.simps set_append Un_subset_iff
       list.set empty_subsetI simp_thms)

lemma nth_hex_encode:
  "i < length buf \<Longrightarrow>
     hex_encode buf ! (2 * i) = hex_digit (unat (buf ! i) div 16) \<and>
     hex_encode buf ! (2 * i + 1) = hex_digit (unat (buf ! i) mod 16)"
proof (induction buf arbitrary: i)
  case Nil
  then show ?case by simp
next
  case (Cons b buf)
  show ?case
  proof (cases i)
    case 0
    then show ?thesis by (simp add: hex_encode_def hex_byte_def)
  next
    case (Suc j)
    with Cons.prems have "j < length buf" by simp
    from Cons.IH [OF this] Suc show ?thesis
      by (simp add: hex_encode_def hex_byte_def)
  qed
qed

lemma Buffer_toString_hex_fits:
  "2 * length buf \<le> kStringMaxLength \<Longrightarrow> Buffer_toString_hex buf = Inr (hex_encode buf)"
  by (simp add: Buffer_toString_hex_def)

lemma Buffer_toString_hex_too_long:
  "kStringMaxLength < 2 * length buf \<Longrightarrow> Buffer_toString_hex buf = Inl StringTooLong"
  by (simp add: Buffer_toString_hex_def)

lemma string_limit_below_size_limit: "2 * n \<le> kStringMaxLength \<Longrightarrow> n \<le> kMaxLength"
  by (simp add: kStringMaxLength_def kMaxLength_def)

lemma randomBytes_nat:
  "n \<le> kMaxLength \<Longrightarrow>
     randomBytes src (JNum (Finite (of_nat n))) = Inr (stake n src, sdrop n src)"
  by simp

lemma random_nat:
  assumes "1 \<le> n" and "2 * n \<le> kStringMaxLength"
  shows "random src (JNum (Finite (of_nat n))) = Inr (hex_encode (stake n src), sdrop n src)"
proof -
  have "randomBytes src (JNum (Finite (of_nat n))) = Inr (stake n src, sdrop n src)"
    using assms(2) by (intro randomBytes_nat string_limit_below_size_limit)
  moreover have "Buffer_toString_hex (stake n src) = Inr (hex_encode (stake n src))"
    using assms(2) by (intro Buffer_toString_hex_fits) simp
  moreover have "logical_or (JNum (Finite (of_nat n))) (JNum (Finite 16)) = JNum (Finite (of_nat n))"
    using assms(1) by (simp add: logical_or_def)
  ultimately show ?thesis
    by (simp add: random_def del: randomBytes.simps)
qed

lemma random_too_long:
  assumes "kStringMaxLength < 2 * n" and "n \<le> kMaxLength"
  shows "random src (JNum (Finite (of_nat n))) = Inl StringTooLong"
proof -
  have "randomBytes src (JNum (Finite (of_nat n))) = Inr (stake n src, sdrop n src)"
    using assms(2) by (rule randomBytes_nat)
  moreover have "Buffer_toString_hex (stake n src) = Inl StringTooLong"
    using assms(1) by (intro Buffer_toString_hex_too_long) simp
  moreover have "logical_or (JNum (Finite (of_nat n))) (JNum (Finite 16)) = JNum (Finite (of_nat n))"
    using assms(1) by (auto simp add: logical_or_def kStringMaxLength_def)
  ultimately show ?thesis
    by (simp add: random_def del: randomBytes.simps)
qed

lemma random_falsy:
  assumes "\<not> Boolean bytes"
  shows "random src bytes = Inr (hex_encode (stake 16 src), sdrop 16 src)"
proof -
  have "randomBytes src (JNum (Finite (of_nat 16))) = Inr (stake 16 src, sdrop 16 src)"
    by (rule randomBytes_nat) (simp add: kMaxLength_def)
  moreover have "Buffer_toString_hex (stake 16 src) = Inr (hex_encode (stake 16 src))"
    by (intro Buffer_toString_hex_fits) (simp add: kStringMaxLength_def)
  moreover have "logical_or bytes (JNum (Finite 16)) = JNum (Finite 16)"
    using assms by (simp add: logical_or_def)
  ultimately show ?thesis
    by (simp add: random_def del: randomBytes.simps)
qed

lemma stake_sconst: "stake n (sconst x) = replicate n x"
  by (induction n) (simp_all del: stake_siterate)

lemma sdrop_sconst: "sdrop n (sconst x) = sconst x"
  by (induction n) (simp_all del: sdrop_siterate)

lemma hex_byte_0: "hex_byte 0 = ''00''"
  by (simp add: hex_byte_def hex_digit_def)

lemma replicate_16: "replicate 16 x = [x, x, x, x, x, x, x, x, x, x, x, x, x, x, x, x]"
  by (simp add: numeral_eq_Suc)

lemma hex_of_16_zero_bytes:
  "hex_encode (stake 16 (sconst 0)) = ''00000000000000000000000000000000''"
  by (simp add: hex_encode_def hex_byte_0 replicate_16 stake_sconst del: stake_siterate)

text \<open>
  Within the limits of the runtime \<open>random\<close> does what its documentation says: for a
  byte count \<open>n\<close> from 1 to \<open>2^28 - 12\<close> it draws the next \<open>n\<close> bytes and returns
  \<open>2 * n\<close> lowercase hexadecimal characters, the high and the low digit of each byte
  in turn. From \<open>2^28 - 11\<close> to \<open>2^31 - 1\<close> bytes the encoding is longer than the
  longest string and \<open>random\<close> raises.
\<close>

lemma random_in_range:
  assumes "1 \<le> n" and "2 * n \<le> kStringMaxLength"
  shows "\<exists>out. random src (JNum (Finite (of_nat n))) = Inr (out, sdrop n src)
           \<and> length out = 2 * n
           \<and> set out \<subseteq> set ''0123456789abcdef''
           \<and> (\<forall>i<n. out ! (2 * i) = ''0123456789abcdef'' ! (unat (src !! i) div 16)
                    \<and> out ! (2 * i + 1) = ''0123456789abcdef'' ! (unat (src !! i) mod 16))"
proof (intro exI conjI allI impI)
  show "random src (JNum (Finite (of_nat n))) = Inr (hex_encode (stake n src), sdrop n src)"
    using assms by (rule random_nat)
  show "length (hex_encode (stake n src)) = 2 * n"
    by (simp add: length_hex_encode)
  show "set (hex_encode (stake n src)) \<subseteq> set ''0123456789abcdef''"
    by (rule set_hex_encode)
next
  fix i assume "i < n"
  then have "i < length (stake n src)" and nth: "stake n src ! i = src !! i"
    by simp_all
  from nth_hex_encode [OF this(1)] nth
  show "hex_encode (stake n src) ! (2 * i)
          = ''0123456789abcdef'' ! (unat (src !! i) div 16)"
    and "hex_encode (stake n src) ! (2 * i + 1)
          = ''0123456789abcdef'' ! (unat (src !! i) mod 16)"
    by (simp_all only: hex_digit_def)
qed

section \<open>Request context helpers: properties\<close>

text \<open>
  C1. For every request context, \<open>checkHTTPS\<close> is true exactly when the secure flag
  is set or the \<open>X-Forwarded-Proto\<close> header is the string \<open>https\<close>.
\<close>

theorem checkHTTPS_iff:
  "checkHTTPS ctx = (secure ctx \<or> get ctx ''X-Forwarded-Proto'' = JStr ''https'')"
  by (simp add: checkHTTPS_def strict_equals_str_iff)

theorem checkHTTPS_iff_witness:
  "checkHTTPS \<lparr>secure = False,
               get = (\<lambda>h. if h = ''X-Forwarded-Proto'' then JStr ''https'' else JStr []),
               protocol = ''http'', host = ''keys.example.com''\<rparr>
   \<and> \<not> checkHTTP \<lparr>secure = False,
               get = (\<lambda>h. if h = ''X-Forwarded-Proto'' then JStr ''https'' else JStr []),
               protocol = ''http'', host = ''keys.example.com''\<rparr>
   \<and> checkHTTPS \<lparr>secure = True, get = (\<lambda>h. JStr []),
               protocol = ''https'', host = ''keys.example.com''\<rparr>
   \<and> \<not> checkHTTPS \<lparr>secure = False, get = (\<lambda>h. JStr []),
               protocol = ''http'', host = ''keys.example.com''\<rparr>"
  using
    checkHTTPS_iff [of "\<lparr>secure = False,
               get = (\<lambda>h. if h = ''X-Forwarded-Proto'' then JStr ''https'' else JStr []),
               protocol = ''http'', host = ''keys.example.com''\<rparr>"]
    checkHTTPS_iff [of "\<lparr>secure = True, get = (\<lambda>h. JStr []),
               protocol = ''https'', host = ''keys.example.com''\<rparr>"]
    checkHTTPS_iff [of "\<lparr>secure = False, get = (\<lambda>h. JStr []),
               protocol = ''http'', host = ''keys.example.com''\<rparr>"]
  by (simp add: checkHTTP_def)

text \<open>
  C9. No request context is classified both as plaintext HTTP and as HTTPS:
  \<open>checkHTTP\<close> and \<open>checkHTTPS\<close> are never both true.
\<close>

theorem checkHTTP_checkHTTPS_exclusive: "\<not> (checkHTTP ctx \<and> checkHTTPS ctx)"
  by (auto simp: checkHTTP_def checkHTTPS_def strict_equals_str_iff)

theorem checkHTTP_checkHTTPS_exclusive_witness:
  "checkHTTP \<lparr>secure = False,
              get = (\<lambda>h. if h = ''X-Forwarded-Proto'' then JStr ''http'' else JStr []),
              protocol = ''http'', host = ''keys.example.com''\<rparr>
   \<and> \<not> checkHTTPS \<lparr>secure = False,
              get = (\<lambda>h. if h = ''X-Forwarded-Proto'' then JStr ''http'' else JStr []),
              protocol = ''http'', host = ''keys.example.com''\<rparr>"
  using checkHTTP_checkHTTPS_exclusive [of "\<lparr>secure = False,
              get = (\<lambda>h. if h = ''X-Forwarded-Proto'' then JStr ''http'' else JStr []),
              protocol = ''http'', host = ''keys.example.com''\<rparr>"]
  by (simp add: checkHTTP_def)

text \<open>
  C6. \<open>hkpUrl\<close> returns \<open>hkps://\<close> followed by the host when \<open>checkHTTPS\<close> holds,
  and \<open>hkp://\<close> followed by the host otherwise; nothing follows the host.
\<close>

theorem hkpUrl_scheme:
  "hkpUrl ctx = (if checkHTTPS ctx then ''hkps://'' @ host ctx else ''hkp://'' @ host ctx)"
  by (simp add: hkpUrl_def)

theorem hkpUrl_scheme_witness:
  "hkpUrl \<lparr>secure = True, get = (\<lambda>h. JStr []),
           protocol = ''https'', host = ''keys.example.com''\<rparr> = ''hkps://keys.example.com''
   \<and> hkpUrl \<lparr>secure = False, get = (\<lambda>h. JStr []),
           protocol = ''http'', host = ''keys.example.com''\<rparr> = ''hkp://keys.example.com''"
  using
    hkpUrl_scheme [of "\<lparr>secure = True, get = (\<lambda>h. JStr []),
           protocol = ''https'', host = ''keys.example.com''\<rparr>"]
    hkpUrl_scheme [of "\<lparr>secure = False, get = (\<lambda>h. JStr []),
           protocol = ''http'', host = ''keys.example.com''\<rparr>"]
  by (simp add: checkHTTPS_def)

text \<open>
  C7. \<open>origin\<close> returns a record whose protocol is \<open>https\<close> when \<open>checkHTTPS\<close>
  holds and the raw protocol of the context otherwise, and whose host is the host of
  the context, unchanged.
\<close>

theorem origin_fields:
  "origin_protocol (origin ctx) = (if checkHTTPS ctx then ''https'' else protocol ctx)
   \<and> origin_host (origin ctx) = host ctx"
  by (simp add: origin_def)

theorem origin_fields_witness:
  "origin \<lparr>secure = False,
           get = (\<lambda>h. if h = ''X-Forwarded-Proto'' then JStr ''https'' else JStr []),
           protocol = ''http'', host = ''keys.example.com''\<rparr>
     = \<lparr>origin_protocol = ''https'', origin_host = ''keys.example.com''\<rparr>
   \<and> origin \<lparr>secure = False, get = (\<lambda>h. JStr []),
           protocol = ''http'', host = ''keys.example.com''\<rparr>
     = \<lparr>origin_protocol = ''http'', origin_host = ''keys.example.com''\<rparr>"
  using
    origin_fields [of "\<lparr>secure = False,
           get = (\<lambda>h. if h = ''X-Forwarded-Proto'' then JStr ''https'' else JStr []),
           protocol = ''http'', host = ''keys.example.com''\<rparr>"]
    origin_fields [of "\<lparr>secure = False, get = (\<lambda>h. JStr []),
           protocol = ''http'', host = ''keys.example.com''\<rparr>"]
  by (simp add: checkHTTPS_def server_origin.equality)

section \<open>Error helper: properties\<close>

text \<open>
  C8. For every status and message, \<open>throw\<close> never returns normally: it raises an
  error whose message is the given message, whose status is the given status, and
  whose expose flag is set.
\<close>

theorem throw_always_raises:
  "(throw st msg :: js_exn + 'a) = Inl (Error \<lparr>message = msg, status = st, expose = True\<rparr>)
   \<and> (\<forall>r :: 'a. throw st msg \<noteq> (Inr r :: js_exn + 'a))"
  by (simp add: throw_def)

theorem throw_always_raises_witness:
  "(throw (JNum (Finite 404)) ''Key not found'' :: js_exn + unit)
     = Inl (Error \<lparr>message = ''Key not found'', status = JNum (Finite 404), expose = True\<rparr>)"
  using throw_always_raises [of "JNum (Finite 404)" "''Key not found''", where ?'a = unit]
  by simp

section \<open>Type and format predicates: properties\<close>



text \<open>
  C3, as the specification states it: for every input value \<open>isKeyId\<close> returns true or
  false. For the object \<open>Object.create(String.prototype)\<close> it does neither:
  \<open>isString\<close> accepts the object, and its conversion to a string, which the pattern
  test starts with, raises a \<open>TypeError\<close>.
\<close>

theorem isKeyId_raises_counterexample:
  "isString (JObject False (Inr True) (Inl Thrown_TypeError)) = Inr True
   \<and> isKeyId (\<lambda>v. ''0'') (JObject False (Inr True) (Inl Thrown_TypeError)) = Inl TypeError"
  by (simp add: isKeyId_def isString_def RegExp_test_def)

text \<open>
  C3, amended. For every primitive value \<open>isKeyId\<close> returns true exactly when the
  value is a string of exactly 16 hexadecimal characters, upper or lower case, with
  nothing before or after them; a different length, a character that is not a
  hexadecimal digit, or a primitive that is not a string gives false. For an object
  \<open>isKeyId\<close> raises what the lookup of its prototype raises; it returns false when
  \<open>String.prototype\<close> is not among its prototypes; otherwise it raises what the
  conversion of the object to a string raises, or applies the same test of length
  and characters to the string this conversion gives.
\<close>

theorem isKeyId_iff:
  "isKeyId render data =
     (case isString data of
        Inl e \<Rightarrow> Inl e
      | Inr textual \<Rightarrow>
          if \<not> textual then Inr False
          else (case ToString render data of
                  Inl e \<Rightarrow> Inl e
                | Inr s \<Rightarrow> Inr (length s = 16 \<and> set s \<subseteq> set ''0123456789abcdefABCDEF'')))
   \<and> (\<not> is_object data \<longrightarrow>
        isKeyId render data =
          Inr (\<exists>s. data = JStr s \<and> length s = 16 \<and> set s \<subseteq> set ''0123456789abcdefABCDEF''))"
proof (intro conjI impI)
  show "isKeyId render data =
     (case isString data of
        Inl e \<Rightarrow> Inl e
      | Inr textual \<Rightarrow>
          if \<not> textual then Inr False
          else (case ToString render data of
                  Inl e \<Rightarrow> Inl e
                | Inr s \<Rightarrow> Inr (length s = 16 \<and> set s \<subseteq> set ''0123456789abcdefABCDEF'')))"
    unfolding isKeyId_def RegExp_test_def matches_keyid_re ..
next
  assume prim: "\<not> is_object data"
  show "isKeyId render data =
          Inr (\<exists>s. data = JStr s \<and> length s = 16 \<and> set s \<subseteq> set ''0123456789abcdefABCDEF'')"
  proof (cases "\<exists>s. data = JStr s")
    case True
    then obtain s where s: "data = JStr s" ..
    have "isKeyId render (JStr s)
            = Inr (length s = 16 \<and> set s \<subseteq> set ''0123456789abcdefABCDEF'')"
      by (rule isKeyId_textual) (simp_all add: isString_JStr)
    with s show ?thesis by simp
  next
    case False
    with isString_primitive [OF prim] have "isString data = Inr False" by simp
    with False show ?thesis by (simp add: isKeyId_def)
  qed
qed

theorem isKeyId_iff_witness:
  "\<not> is_object (JStr ''0123456789abcDEF'')
   \<and> isKeyId (\<lambda>v. ''0'') (JStr ''0123456789abcDEF'') = Inr True
   \<and> isKeyId (\<lambda>v. ''0'') (JStr ''0123456789abcDE'') = Inr False
   \<and> isKeyId (\<lambda>v. ''0'') (JStr ''0123456789abcDEFG'') = Inr False
   \<and> isKeyId (\<lambda>v. ''0'') (JStr ''0123456789abcDEG'') = Inr False
   \<and> isKeyId (\<lambda>v. ''0'') (JNum (Finite 1234567890123456)) = Inr False
   \<and> isKeyId (\<lambda>v. ''0'') (String_object ''0123456789abcDEF'') = Inr True
   \<and> isKeyId (\<lambda>v. ''0'') (JObject False (Inr False) (Inr ''0123456789abcDEF'')) = Inr False
   \<and> isKeyId (\<lambda>v. ''0'') (JObject False (Inr True) (Inl (Thrown_value 7))) = Inl (Thrown 7)
   \<and> isKeyId (\<lambda>v. ''0'') (JObject False (Inl (Thrown_value 7)) (Inr [])) = Inl (Thrown 7)"
  using isKeyId_iff [of "\<lambda>v. ''0''" "JStr ''0123456789abcDEF''"]
    isKeyId_iff [of "\<lambda>v. ''0''" "JStr ''0123456789abcDE''"]
    isKeyId_iff [of "\<lambda>v. ''0''" "JStr ''0123456789abcDEFG''"]
    isKeyId_iff [of "\<lambda>v. ''0''" "JStr ''0123456789abcDEG''"]
    isKeyId_iff [of "\<lambda>v. ''0''" "JNum (Finite 1234567890123456)"]
    isKeyId_iff [of "\<lambda>v. ''0''" "String_object ''0123456789abcDEF''"]
    isKeyId_iff [of "\<lambda>v. ''0''" "JObject False (Inr False) (Inr ''0123456789abcDEF'')"]
    isKeyId_iff [of "\<lambda>v. ''0''" "JObject False (Inr True) (Inl (Thrown_value 7))"]
    isKeyId_iff [of "\<lambda>v. ''0''" "JObject False (Inl (Thrown_value 7)) (Inr [])"]
  by (simp add: isString_def String_object_def)

text \<open>
  C5, as the specification states it: no predicate ever raises, and each returns false
  for every input that is not textual. Neither holds. The number 1 is not textual and
  \<open>isTrue(1)\<close> is true. For \<open>Object.create(String.prototype)\<close>, which \<open>isString\<close>
  accepts, \<open>isEmail\<close> and \<open>isFingerPrint\<close> raise the \<open>TypeError\<close> of the string
  conversion; for a revoked Proxy, \<open>isString\<close> and \<open>isTrue\<close> raise the
  \<open>TypeError\<close> of the prototype lookup.
\<close>

theorem predicates_raise_counterexample:
  "isString (JNum (Finite 1)) = Inr False \<and> isTrue (JNum (Finite 1)) = Inr True
   \<and> isString (JObject False (Inr True) (Inl Thrown_TypeError)) = Inr True
   \<and> isEmail (\<lambda>v. ''0'') (JObject False (Inr True) (Inl Thrown_TypeError)) = Inl TypeError
   \<and> isFingerPrint (\<lambda>v. ''0'') (JObject False (Inr True) (Inl Thrown_TypeError)) = Inl TypeError
   \<and> isString (JObject False (Inl Thrown_TypeError) (Inl Thrown_TypeError)) = Inl TypeError
   \<and> isTrue (JObject False (Inl Thrown_TypeError) (Inl Thrown_TypeError)) = Inl TypeError"
  by (simp add: isTrue_def isEmail_def isFingerPrint_def isString_def RegExp_test_def)

text \<open>
  C5, amended. On every primitive value all five predicates return a boolean and none
  raises. On an object a predicate raises in two cases only: all five raise what the
  lookup of the object's prototype raises, and \<open>isKeyId\<close>, \<open>isFingerPrint\<close> and
  \<open>isEmail\<close> raise what the string conversion raises of an object that has
  \<open>String.prototype\<close> among its prototypes. For an input that is not textual,
  \<open>isString\<close>, \<open>isKeyId\<close>, \<open>isFingerPrint\<close> and \<open>isEmail\<close> return false, without
  converting the input, and \<open>isTrue\<close> returns its truthiness. For a textual input
  that is malformed they return false: \<open>isTrue\<close> unless the input is the string
  \<open>true\<close>, \<open>isKeyId\<close> and \<open>isFingerPrint\<close> unless its string form has exactly 16 or
  40 hexadecimal digits, and \<open>isEmail\<close> unless its string form matches the e-mail
  pattern, which a string without \<open>@\<close> never does; \<open>user@example.com\<close> is
  accepted and \<open>not-an-email\<close> is not.
\<close>

theorem predicates_total:
  "(\<not> is_object data \<longrightarrow>
      (\<exists>b. isString data = Inr b) \<and> (\<exists>b. isTrue data = Inr b)
      \<and> (\<exists>b. isKeyId render data = Inr b) \<and> (\<exists>b. isFingerPrint render data = Inr b)
      \<and> (\<exists>b. isEmail render data = Inr b))
   \<and> (isString data = Inl e) =
        (\<exists>callable t conv. data = JObject callable (Inl t) conv \<and> e = raise_of t)
   \<and> (isString data = Inl e \<longrightarrow>
        isTrue data = Inl e \<and> isKeyId render data = Inl e
        \<and> isFingerPrint render data = Inl e \<and> isEmail render data = Inl e)
   \<and> (isString data = Inr False \<longrightarrow>
        isTrue data = Inr (Boolean data) \<and> isKeyId render data = Inr False
        \<and> isFingerPrint render data = Inr False \<and> isEmail render data = Inr False)
   \<and> (isString data = Inr True \<longrightarrow>
        isTrue data = Inr (data = JStr ''true'')
        \<and> (ToString render data = Inl e) =
            (\<exists>callable t. data = JObject callable (Inr True) (Inl t) \<and> e = raise_of t)
        \<and> (ToString render data = Inl e \<longrightarrow>
              isKeyId render data = Inl e \<and> isFingerPrint render data = Inl e
              \<and> isEmail render data = Inl e)
        \<and> (\<forall>s. ToString render data = Inr s \<longrightarrow>
              isKeyId render data
                = Inr (length s = 16 \<and> set s \<subseteq> set ''0123456789abcdefABCDEF'')
              \<and> isFingerPrint render data
                = Inr (length s = 40 \<and> set s \<subseteq> set ''0123456789abcdefABCDEF'')
              \<and> isEmail render data = Inr (matches email_re s)
              \<and> (CHR ''@'' \<notin> set s \<longrightarrow> isEmail render data = Inr False)))
   \<and> isEmail render (JStr ''user@example.com'') = Inr True
   \<and> isEmail render (JStr ''not-an-email'') = Inr False"
proof (intro conjI impI allI)
  assume prim: "\<not> is_object data"
  from isString_primitive [OF prim] show "\<exists>b. isString data = Inr b" ..
  from isString_primitive [OF prim] show "\<exists>b. isTrue data = Inr b"
    by (simp add: isTrue_def)
  show "\<exists>b. isKeyId render data = Inr b"
  proof (cases "isString data = Inr True")
    case True
    from ToString_primitive_textual [OF prim True] obtain s
      where "ToString render data = Inr s" ..
    from isKeyId_textual [OF True this] show ?thesis ..
  next
    case False
    with isString_primitive [OF prim] show ?thesis by (auto simp: isKeyId_def)
  qed
  show "\<exists>b. isFingerPrint render data = Inr b"
  proof (cases "isString data = Inr True")
    case True
    from ToString_primitive_textual [OF prim True] obtain s
      where "ToString render data = Inr s" ..
    from isFingerPrint_textual [OF True this] show ?thesis ..
  next
    case False
    with isString_primitive [OF prim] show ?thesis by (auto simp: isFingerPrint_def)
  qed
  show "\<exists>b. isEmail render data = Inr b"
  proof (cases "isString data = Inr True")
    case True
    from ToString_primitive_textual [OF prim True] obtain s
      where "ToString render data = Inr s" ..
    from isEmail_textual [OF True this] show ?thesis ..
  next
    case False
    with isString_primitive [OF prim] show ?thesis by (auto simp: isEmail_def)
  qed
next
  show "(isString data = Inl e) =
        (\<exists>callable t conv. data = JObject callable (Inl t) conv \<and> e = raise_of t)"
    by (rule isString_raises_iff)
next
  assume r: "isString data = Inl e"
  then show "isTrue data = Inl e" by (simp add: isTrue_def)
  from r show "isKeyId render data = Inl e" by (simp add: isKeyId_def)
  from r show "isFingerPrint render data = Inl e" by (simp add: isFingerPrint_def)
  from r show "isEmail render data = Inl e" by (simp add: isEmail_def)
next
  assume n: "isString data = Inr False"
  then show "isTrue data = Inr (Boolean data)" by (simp add: isTrue_def)
  from n show "isKeyId render data = Inr False" by (simp add: isKeyId_def)
  from n show "isFingerPrint render data = Inr False" by (simp add: isFingerPrint_def)
  from n show "isEmail render data = Inr False" by (simp add: isEmail_def)
next
  assume t: "isString data = Inr True"
  then show "isTrue data = Inr (data = JStr ''true'')"
    by (simp add: isTrue_def strict_equals_str_iff)
  from t show "(ToString render data = Inl e) =
            (\<exists>callable t. data = JObject callable (Inr True) (Inl t) \<and> e = raise_of t)"
    by (rule ToString_textual_raises_iff)
  {
    assume "ToString render data = Inl e"
    from pattern_predicates_raise [OF t this]
    show "isKeyId render data = Inl e" and "isFingerPrint render data = Inl e"
      and "isEmail render data = Inl e"
      by (rule conjunct1, rule conjunct2 [THEN conjunct1], rule conjunct2 [THEN conjunct2])
  }
  {
    fix s assume s: "ToString render data = Inr s"
    from isKeyId_textual [OF t s]
    show "isKeyId render data
            = Inr (length s = 16 \<and> set s \<subseteq> set ''0123456789abcdefABCDEF'')" .
    from isFingerPrint_textual [OF t s]
    show "isFingerPrint render data
            = Inr (length s = 40 \<and> set s \<subseteq> set ''0123456789abcdefABCDEF'')" .
    from isEmail_textual [OF t s]
    show e: "isEmail render data = Inr (matches email_re s)" .
    {
      assume "CHR ''@'' \<notin> set s"
      from matches_email_re_at [OF this] e
      show "isEmail render data = Inr False" by simp
    }
  }
next
  show "isEmail render (JStr ''user@example.com'') = Inr True"
    by (simp only: isEmail_JStr matches_email_re_examples)
  show "isEmail render (JStr ''not-an-email'') = Inr False"
    by (simp only: isEmail_JStr matches_email_re_examples)
qed

theorem predicates_total_witness:
  "\<not> is_object (JNum (Finite 1))
   \<and> isString (JNum (Finite 1)) = Inr False \<and> isTrue (JNum (Finite 1)) = Inr True
   \<and> isKeyId (\<lambda>v. ''0'') (JNum (Finite 1)) = Inr False
   \<and> isFingerPrint (\<lambda>v. ''0'') (JNum (Finite 1)) = Inr False
   \<and> isEmail (\<lambda>v. ''0'') (JNum (Finite 1)) = Inr False
   \<and> isString (JStr ''user.example.com'') = Inr True
   \<and> ToString (\<lambda>v. ''0'') (JStr ''user.example.com'') = Inr ''user.example.com''
   \<and> CHR ''@'' \<notin> set ''user.example.com''
   \<and> isTrue (JStr ''user.example.com'') = Inr False
   \<and> isKeyId (\<lambda>v. ''0'') (JStr ''user.example.com'') = Inr False
   \<and> isFingerPrint (\<lambda>v. ''0'') (JStr ''user.example.com'') = Inr False
   \<and> isEmail (\<lambda>v. ''0'') (JStr ''user.example.com'') = Inr False
   \<and> isString (JObject False (Inr True) (Inl Thrown_TypeError)) = Inr True
   \<and> ToString (\<lambda>v. ''0'') (JObject False (Inr True) (Inl Thrown_TypeError)) = Inl TypeError
   \<and> isTrue (JObject False (Inr True) (Inl Thrown_TypeError)) = Inr False
   \<and> isKeyId (\<lambda>v. ''0'') (JObject False (Inr True) (Inl Thrown_TypeError)) = Inl TypeError
   \<and> isEmail (\<lambda>v. ''0'') (JObject False (Inr True) (Inl Thrown_TypeError)) = Inl TypeError
   \<and> isString (JObject False (Inl Thrown_TypeError) (Inr [])) = Inl TypeError
   \<and> isTrue (JObject False (Inl Thrown_TypeError) (Inr [])) = Inl TypeError
   \<and> isFingerPrint (\<lambda>v. ''0'') (JObject False (Inl Thrown_TypeError) (Inr [])) = Inl TypeError"
  using
    predicates_total [where data = "JNum (Finite 1)" and render = "\<lambda>v. ''0''"]
    predicates_total [where data = "JStr ''user.example.com''" and render = "\<lambda>v. ''0''"]
    predicates_total [where data = "JObject False (Inr True) (Inl Thrown_TypeError)"
      and render = "\<lambda>v. ''0''" and e = TypeError]
    predicates_total [where data = "JObject False (Inl Thrown_TypeError) (Inr [])"
      and render = "\<lambda>v. ''0''" and e = TypeError]
  by (auto simp add: isString_def simp del: matches.simps)

section \<open>Random hex strings: properties\<close>

text \<open>
  C2. For every byte count \<open>n\<close>, \<open>random(n)\<close> returns the lowercase hexadecimal
  encoding of \<open>n\<close> random bytes, \<open>2 * n\<close> characters; the documentation of the
  function says the same (``twice as long as bytes'', with the default of 16 bytes
  ``if no length is provided''). At the byte count 0 the code does something else:
  \<open>bytes || 16\<close> takes the given 0 for a missing argument, 16 bytes are drawn, and
  the result has 32 characters where the encoding of no bytes is the empty string.
\<close>

theorem random_zero_length:
  "random (sconst 0) (JNum (Finite (of_nat 0)))
     = Inr (''00000000000000000000000000000000'', sconst 0)
   \<and> length ''00000000000000000000000000000000'' \<noteq> 2 * (0 :: nat)"
  using random_falsy [of "JNum (Finite 0)" "sconst 0"]
  by (simp add: hex_of_16_zero_bytes sdrop_sconst
        del: stake_siterate sdrop_siterate)

text \<open>
  C10. \<open>random\<close> applies the default of 16 bytes to every falsy byte count, not only
  to an omitted one: the result is then what \<open>random(16)\<close> returns, a string of 32
  lowercase hexadecimal characters. In particular \<open>random(0)\<close> returns 32
  characters, not the empty string.
\<close>

theorem random_default_for_falsy:
  assumes "\<not> Boolean bytes"
  shows "random src bytes = random src (JNum (Finite 16))
         \<and> (\<exists>out. random src bytes = Inr (out, sdrop 16 src)
                \<and> length out = 32 \<and> out \<noteq> [] \<and> set out \<subseteq> set ''0123456789abcdef'')"
proof -
  let ?out = "hex_encode (stake 16 src)"
  have r: "random src bytes = Inr (?out, sdrop 16 src)"
    using assms by (rule random_falsy)
  have "random src (JNum (Finite 16)) = Inr (?out, sdrop 16 src)"
    using random_nat [of 16 src] by (simp add: kStringMaxLength_def)
  moreover have len: "length ?out = 32"
    by (simp add: length_hex_encode)
  moreover from len have "?out \<noteq> []" by auto
  moreover have "set ?out \<subseteq> set ''0123456789abcdef''"
    by (rule set_hex_encode)
  ultimately show ?thesis using r by (intro conjI exI [of _ ?out]) simp_all
qed

theorem random_default_for_falsy_witness:
  "\<not> Boolean (JNum (Finite 0))
   \<and> (random (sconst 0) (JNum (Finite 0)) = random (sconst 0) (JNum (Finite 16))
      \<and> (\<exists>out. random (sconst 0) (JNum (Finite 0)) = Inr (out, sdrop 16 (sconst 0))
             \<and> length out = 32 \<and> out \<noteq> [] \<and> set out \<subseteq> set ''0123456789abcdef''))"
proof -
  have h: "\<not> Boolean (JNum (Finite 0))"
    by simp
  from h random_default_for_falsy [OF h, of "sconst 0"] show ?thesis
    by (rule conjI)
qed

end
